theory Spec2Isabelle
  imports Main "HOL-Library.AList"
begin

section \<open>chatwork-go: the request and response pipeline of the client\<close>

text \<open>
  The theory embeds the transport pipeline of \<^verbatim>\<open>chatwork.go\<close> (request builders,
  \<^verbatim>\<open>Do\<close>, \<^verbatim>\<open>processResponseBody\<close>, \<^verbatim>\<open>CheckResponse\<close>, \<^verbatim>\<open>APIError.Error\<close>) and the two
  message endpoints \<^verbatim>\<open>MessagesService.Create\<close> and \<^verbatim>\<open>MessagesService.SendMessage\<close>.

  Go strings and byte slices are byte sequences: \<open>string\<close> (a list of 8-bit \<open>char\<close>).
  A \<^verbatim>\<open>*url.URL\<close> is represented by its \<^verbatim>\<open>String()\<close> rendering. Pointers that the code
  mutates (the response body, the decoding destination) are threaded as explicit state.
  The standard library (\<^verbatim>\<open>net/url\<close>, \<^verbatim>\<open>encoding/json\<close>, \<^verbatim>\<open>go-querystring\<close>, the HTTP
  transport) is outside the repository: what the pipeline needs of it is either a
  field of the record \<open>env\<close>, or written out where the library fixes the behaviour
  (\<^verbatim>\<open>io.ReadAll\<close>, \<^verbatim>\<open>io.Copy\<close>, the read loop of \<^verbatim>\<open>json.Decoder\<close>).
\<close>

subsection \<open>Strings\<close>

type_synonym bytes = string

text \<open>\<^verbatim>\<open>strings.HasPrefix\<close>, \<^verbatim>\<open>strings.TrimRight\<close> (every trailing byte of the cutset goes).\<close>

definition HasPrefix :: "string \<Rightarrow> string \<Rightarrow> bool" where
  "HasPrefix s p = (take (length p) s = p)"

definition TrimRight :: "string \<Rightarrow> string \<Rightarrow> string" where
  "TrimRight s cutset = rev (dropWhile (\<lambda>c. c \<in> set cutset) (rev s))"

text \<open>
  \<^verbatim>\<open>strings.Join\<close>: nothing for no element, the element itself for one, otherwise the
  first element followed by separator and element for each of the others, left to right.
\<close>

fun Join_rest :: "string \<Rightarrow> string list \<Rightarrow> string \<Rightarrow> string" where
  "Join_rest acc [] sep = acc"
| "Join_rest acc (s # ss) sep = Join_rest (acc @ sep @ s) ss sep"

definition Join :: "string list \<Rightarrow> string \<Rightarrow> string" where
  "Join elems sep =
     (case elems of [] \<Rightarrow> [] | [e] \<Rightarrow> e | e # es \<Rightarrow> Join_rest e es sep)"

text \<open>
  The verb \<^verbatim>\<open>%d\<close> of \<^verbatim>\<open>fmt\<close>: decimal digits, a minus sign for a negative number.
  \<open>digit\<close> is only applied to a number below ten.
\<close>

definition digit :: "nat \<Rightarrow> char" where
  "digit d = ''0123456789'' ! d"

function itoa_nat :: "nat \<Rightarrow> string" where
  "itoa_nat n = (if n < 10 then [digit n] else itoa_nat (n div 10) @ [digit (n mod 10)])"
  by pat_completeness auto
termination
  by (relation "measure id") auto

declare itoa_nat.simps [simp del]

definition itoa :: "int \<Rightarrow> string" where
  "itoa i = (if i < 0 then CHR ''-'' # itoa_nat (nat (- i)) else itoa_nat (nat i))"

subsection \<open>Requests, responses and errors\<close>

text \<open>A \<^verbatim>\<open>context.Context\<close>; the nil interface value is a context too.\<close>

datatype ctx = NilContext | Background | Derived nat

type_synonym url = string

text \<open>
  \<^verbatim>\<open>http.Request\<close>: \<open>Header\<close> associates a header name with the value \<^verbatim>\<open>Header.Set\<close>
  stored, one entry a name (both \<^verbatim>\<open>Set\<close> and \<^verbatim>\<open>Get\<close> canonicalise the name the same way,
  so names are kept as written); \<open>ReqBody\<close> is \<open>None\<close> for a request without a body.
\<close>

record http_request =
  Method :: string
  URL :: url
  Header :: "(string \<times> string) list"
  ReqBody :: "bytes option"
  Ctx :: ctx

text \<open>
  \<^verbatim>\<open>http.Response\<close> without its body. The body is a reader that \<^verbatim>\<open>Do\<close> and
  \<^verbatim>\<open>CheckResponse\<close> mutate through the pointer; it is threaded beside the response.
\<close>

record http_response =
  StatusCode :: int
  Request :: http_request

text \<open>
  \<^verbatim>\<open>APIError\<close>. Its \<open>Response\<close> is a pointer: the record is an \<^verbatim>\<open>APIError\<close> whose pointer is
  set, holding the response it points to. As an \<^verbatim>\<open>error\<close> value, \<open>APIErr e\<close> is such an
  \<^verbatim>\<open>*APIError\<close>, and \<open>APIErrNilResponse msgs\<close> is an \<^verbatim>\<open>*APIError\<close> with the messages \<open>msgs\<close>
  whose \<open>Response\<close> pointer is nil: it has no method, URL or status.
\<close>

record APIError =
  Response :: http_response
  Errors :: "string list"

datatype error =
    EOF
  | ErrUnexpectedEOF
  | ErrShortWrite
  | IOError string
  | SyntaxError string
  | InvalidUnmarshalError
  | UnmarshalError string
  | URLError string
  | EncodeError string
  | MethodError string
  | NilContextError
  | TransportError string
  | CopyFailed error
  | APIErr APIError
  | APIErrNilResponse "string list"
  | Panic string

text \<open>
  A response body (\<^verbatim>\<open>io.ReadCloser\<close>): \<open>pending\<close> holds what the coming calls of
  \<^verbatim>\<open>Read\<close> deliver, one element a call; once they are delivered \<^verbatim>\<open>Read\<close> returns no
  byte and \<open>final\<close>, which is \<open>EOF\<close> for a body that ends, or the failure of the
  connection. \<open>reads\<close> counts the calls of \<^verbatim>\<open>Read\<close>, \<open>at_end\<close> says that one of them
  has returned \<open>final\<close>, \<open>closed\<close> that \<^verbatim>\<open>Close\<close> was called.
\<close>

record body =
  pending :: "bytes list"
  final :: error
  reads :: nat
  at_end :: bool
  closed :: bool

definition Read :: "body \<Rightarrow> (bytes \<times> error option) \<times> body" where
  "Read b =
     (case pending b of
        [] \<Rightarrow> (([], Some (final b)), b\<lparr>reads := Suc (reads b), at_end := True\<rparr>)
      | c # cs \<Rightarrow> ((c, None), b\<lparr>pending := cs, reads := Suc (reads b)\<rparr>))"

definition Close :: "body \<Rightarrow> body" where
  "Close b = b\<lparr>closed := True\<rparr>"

text \<open>
  \<^verbatim>\<open>io.ReadAll\<close>: reads until \<^verbatim>\<open>Read\<close> returns an error, and returns what was read
  with that error, \<^verbatim>\<open>io.EOF\<close> turned into nil. The slice it returns is never nil.
\<close>

function ReadAll_from :: "bytes \<Rightarrow> body \<Rightarrow> (bytes \<times> error option) \<times> body" where
  "ReadAll_from acc b =
     (case Read b of
        ((c, None), b') \<Rightarrow> ReadAll_from (acc @ c) b'
      | ((c, Some e), b') \<Rightarrow> ((acc @ c, if e = EOF then None else Some e), b'))"
  by pat_completeness auto
termination
  by (relation "measure (\<lambda>(acc, b). length (pending b))")
     (auto simp: Read_def split: list.splits)

declare ReadAll_from.simps [simp del]

definition ReadAll :: "body \<Rightarrow> (bytes \<times> error option) \<times> body" where
  "ReadAll b = ReadAll_from [] b"

subsection \<open>The library environment\<close>

text \<open>\<^verbatim>\<open>nonSpace\<close> of \<^verbatim>\<open>encoding/json\<close>: some byte is not JSON white space.\<close>

definition isSpace :: "char \<Rightarrow> bool" where
  "isSpace c = (c = CHR '' '' \<or> c = CHR 0x09 \<or> c = CHR 0x0D \<or> c = CHR 0x0A)"

definition nonSpace :: "bytes \<Rightarrow> bool" where
  "nonSpace b = list_ex (\<lambda>c. \<not> isSpace c) b"

datatype scan = Incomplete | Complete nat | Invalid string

text \<open>
  Where the \<open>Response\<close> pointer of an \<^verbatim>\<open>APIError\<close> points once \<^verbatim>\<open>json.Unmarshal\<close> has decoded
  into the \<^verbatim>\<open>APIError\<close>: nowhere (a \<^verbatim>\<open>null\<close> under the key \<^verbatim>\<open>Response\<close>), still to the response
  it was built on, or to a response the decoder allocated after a \<^verbatim>\<open>null\<close>.
\<close>

datatype response_ptr = NilResponse | SameResponse | OtherResponse http_response

text \<open>
  What the pipeline takes from libraries. \<open>'b\<close> is the type of request payloads,
  \<open>'v\<close> the type of decoded values.
  \<^item> \<open>url_Parse\<close>: \<^verbatim>\<open>url.Parse\<close>; \<open>url_Resolve base ref\<close>: \<^verbatim>\<open>base.Parse(ref)\<close>, the
    reference resolved against the base;
  \<^item> \<open>validMethod\<close>: the method check of \<^verbatim>\<open>http.NewRequestWithContext\<close>;
  \<^item> \<open>json_Encode\<close>: \<^verbatim>\<open>json.Encoder.Encode\<close>, the escaping of \<^verbatim>\<open><\<close>, \<^verbatim>\<open>>\<close>, \<^verbatim>\<open>&\<close> off;
    \<open>form_Encode\<close>: \<^verbatim>\<open>query.Values\<close> followed by \<^verbatim>\<open>Encode\<close>;
  \<^item> \<open>json_checkValid\<close>: the syntax check \<^verbatim>\<open>json.Unmarshal\<close> runs first, on an input with a
    non-space byte: the message of the syntax error, or \<open>None\<close> for valid JSON;
  \<^item> \<open>unmarshal_APIError data r\<close>: the decoding of the valid document \<open>data\<close> into
    \<^verbatim>\<open>&APIError{Response: r}\<close>. Both fields of \<^verbatim>\<open>APIError\<close> are exported and \<open>Response\<close> has
    no \<^verbatim>\<open>json:"-"\<close> tag, so the document reaches \<open>Errors\<close> under the key \<^verbatim>\<open>errors\<close> and the
    pointer \<open>Response\<close>, and through it the response \<open>r\<close> itself, under the key
    \<^verbatim>\<open>Response\<close>. The result is the message of the first type error if there is one,
    where \<open>Response\<close> points afterwards, the response \<open>r\<close> as the decoder leaves it, and
    the field \<open>Errors\<close>;
  \<^item> \<open>json_scan\<close>: the decoder's scanner on a non-empty buffer: a first value is
    complete after so many bytes, or the input is invalid, or more input is needed;
    \<open>json_scan_eof\<close>: the buffered value is complete once the input has ended;
  \<^item> \<open>unmarshal_value\<close>: the decoder storing a scanned value into a destination.
\<close>

record ('b, 'v) env =
  url_Parse :: "string \<Rightarrow> error + url"
  url_Resolve :: "url \<Rightarrow> string \<Rightarrow> error + url"
  validMethod :: "string \<Rightarrow> bool"
  json_Encode :: "'b \<Rightarrow> error + bytes"
  form_Encode :: "'b \<Rightarrow> error + bytes"
  json_checkValid :: "bytes \<Rightarrow> string option"
  unmarshal_APIError ::
    "bytes \<Rightarrow> http_response \<Rightarrow> string option \<times> response_ptr \<times> http_response \<times> string list"
  json_scan :: "bytes \<Rightarrow> scan"
  json_scan_eof :: "bytes \<Rightarrow> bool"
  unmarshal_value :: "bytes \<Rightarrow> 'v \<Rightarrow> error option \<times> 'v"

text \<open>
  \<^verbatim>\<open>checkValid\<close>: the syntax check of \<^verbatim>\<open>json.Unmarshal\<close>. An input without any non-space
  byte ends before a value began.
\<close>

definition checkValid :: "('b, 'v) env \<Rightarrow> bytes \<Rightarrow> string option" where
  "checkValid env data =
     (if nonSpace data then json_checkValid env data
      else Some ''unexpected end of JSON input'')"

text \<open>
  \<^verbatim>\<open>json.Unmarshal(data, errorResponse)\<close> with \<^verbatim>\<open>errorResponse = &APIError{Response: r}\<close>: an
  input that is not valid JSON is rejected before anything is stored; a valid one is
  decoded into the \<^verbatim>\<open>APIError\<close>.
\<close>

definition json_Unmarshal ::
  "('b, 'v) env \<Rightarrow> bytes \<Rightarrow> http_response \<Rightarrow>
     string option \<times> response_ptr \<times> http_response \<times> string list" where
  "json_Unmarshal env data r =
     (case checkValid env data of
        Some m \<Rightarrow> (Some m, SameResponse, r, [])
      | None \<Rightarrow> unmarshal_APIError env data r)"

subsection \<open>Classification of a response\<close>

text \<open>The \<^verbatim>\<open>*APIError\<close> as an error value, from where its pointer points and its messages.\<close>

definition api_error :: "response_ptr \<Rightarrow> http_response \<Rightarrow> string list \<Rightarrow> error" where
  "api_error ptr r msgs =
     (case ptr of
        NilResponse \<Rightarrow> APIErrNilResponse msgs
      | SameResponse \<Rightarrow> APIErr \<lparr>Response = r, Errors = msgs\<rparr>
      | OtherResponse x \<Rightarrow> APIErr \<lparr>Response = x, Errors = msgs\<rparr>)"

text \<open>
  \<^verbatim>\<open>CheckResponse\<close>. The result of \<^verbatim>\<open>io.ReadAll\<close> is never a nil slice, so of the guard
  \<^verbatim>\<open>err == nil && data != nil\<close> the first conjunct decides. \<^verbatim>\<open>CheckResponse\<close> takes the
  response by pointer and the decoder may write to it: the model returns, between the
  error and the body, the response as \<^verbatim>\<open>CheckResponse\<close> leaves it.
\<close>

definition CheckResponse ::
  "('b, 'v) env \<Rightarrow> http_response \<Rightarrow> body \<Rightarrow> error option \<times> http_response \<times> body" where
  "CheckResponse env r b =
     (let c = StatusCode r in
      if 200 \<le> c \<and> c \<le> 299 then (None, r, b)
      else
        (let ((data, err), b') = ReadAll b;
             (ptr, r', msgs) =
               (if err = None then
                  (case json_Unmarshal env data r of
                     (Some m, ptr, r', msgs) \<Rightarrow>
                       (ptr, r', [''Failed to parse error response: '' @ m])
                   | (None, ptr, r', msgs) \<Rightarrow> (ptr, r', msgs))
                else (SameResponse, r, []))
         in (Some (api_error ptr r' msgs), r', b')))"

text \<open>\<^verbatim>\<open>APIError.Error\<close>: \<^verbatim>\<open>fmt.Sprintf("%v %v: %d %v", method, url, status, joined)\<close>.\<close>

definition Error :: "APIError \<Rightarrow> string" where
  "Error r =
     Method (Request (Response r)) @ '' '' @ URL (Request (Response r)) @ '': '' @
     itoa (StatusCode (Response r)) @ '' '' @ Join (Errors r) '', ''"

subsection \<open>Decoding a success body\<close>

text \<open>
  A destination \<^verbatim>\<open>v interface{}\<close>: the nil interface value, an interface value holding
  a nil pointer, a value implementing \<^verbatim>\<open>io.Writer\<close>, or a pointer to a structured value
  (the value it points to is threaded). A writer records the bytes it has accepted in \<open>received\<close>;
  with \<open>room = Some n\<close> it accepts \<open>n\<close> more bytes and then fails with \<open>werr\<close>
  (a short write), with \<open>room = None\<close> it never fails.
\<close>

record writer =
  received :: bytes
  room :: "nat option"
  werr :: error

datatype 'v dest = NilDest | NilPointer | WriterDest writer | ValueDest 'v

definition is_writer :: "'v dest \<Rightarrow> bool" where
  "is_writer v = (case v of WriterDest w \<Rightarrow> True | _ \<Rightarrow> False)"

definition Write :: "writer \<Rightarrow> bytes \<Rightarrow> (nat \<times> error option) \<times> writer" where
  "Write w p =
     (case room w of
        None \<Rightarrow> ((length p, None), w\<lparr>received := received w @ p\<rparr>)
      | Some n \<Rightarrow>
          if length p \<le> n
          then ((length p, None), w\<lparr>received := received w @ p, room := Some (n - length p)\<rparr>)
          else ((n, Some (werr w)), w\<lparr>received := received w @ take n p, room := Some 0\<rparr>))"

text \<open>
  \<^verbatim>\<open>io.Copy\<close>: each chunk read is written; a write error or a short write stops the
  copy, then a read error does, \<^verbatim>\<open>io.EOF\<close> ending it without error. The byte count
  is dropped, as the caller drops it.
\<close>

definition copy_chunk :: "writer \<Rightarrow> bytes \<Rightarrow> error option \<times> writer" where
  "copy_chunk w c =
     (if 0 < length c then
        (let ((nw, ew), w') = Write w c in
         if ew \<noteq> None then (ew, w')
         else if length c \<noteq> nw then (Some ErrShortWrite, w')
         else (None, w'))
      else (None, w))"

function io_Copy :: "writer \<Rightarrow> body \<Rightarrow> error option \<times> writer \<times> body" where
  "io_Copy w b =
     (case Read b of
        ((c, er), b') \<Rightarrow>
          (case copy_chunk w c of
             (Some e, w') \<Rightarrow> (Some e, w', b')
           | (None, w') \<Rightarrow>
               (case er of
                  Some e \<Rightarrow> (if e = EOF then None else Some e, w', b')
                | None \<Rightarrow> io_Copy w' b')))"
  by pat_completeness auto
termination
  by (relation "measure (\<lambda>(w, b). length (pending b))")
     (auto simp: Read_def split: list.splits)

declare io_Copy.simps [simp del]

text \<open>
  The read loop of \<^verbatim>\<open>json.Decoder\<close> (\<^verbatim>\<open>readValue\<close>): scan what is buffered; when no
  value is complete yet, read more. When the read returns an error: at \<^verbatim>\<open>io.EOF\<close> a
  buffered value that only the end of input terminates is complete, a buffer with a
  non-space byte otherwise gives \<^verbatim>\<open>io.ErrUnexpectedEOF\<close>, and a buffer without one
  gives \<^verbatim>\<open>io.EOF\<close>; any other error is returned as it is. An empty buffer has nothing
  to scan, and a scanner that has seen white space only is still before a value.
\<close>

definition scan_buffer :: "('b, 'v) env \<Rightarrow> bytes \<Rightarrow> scan" where
  "scan_buffer env buf = (if buf = [] then Incomplete else json_scan env buf)"

definition scanEnd_at_EOF :: "('b, 'v) env \<Rightarrow> bytes \<Rightarrow> bool" where
  "scanEnd_at_EOF env buf = (nonSpace buf \<and> json_scan_eof env buf)"

function readValue :: "('b, 'v) env \<Rightarrow> bytes \<Rightarrow> body \<Rightarrow> (error + bytes) \<times> body" where
  "readValue env buf b =
     (case scan_buffer env buf of
        Complete n \<Rightarrow> (Inr (take n buf), b)
      | Invalid m \<Rightarrow> (Inl (SyntaxError m), b)
      | Incomplete \<Rightarrow>
          (case Read b of
             ((c, None), b') \<Rightarrow> readValue env (buf @ c) b'
           | ((c, Some e), b') \<Rightarrow>
               (if e = EOF then
                  (if scanEnd_at_EOF env (buf @ c) then (Inr (buf @ c), b')
                   else if nonSpace (buf @ c) then (Inl ErrUnexpectedEOF, b')
                   else (Inl EOF, b'))
                else (Inl e, b'))))"
  by pat_completeness auto
termination
  by (relation "measure (\<lambda>(env, buf, b). length (pending b))")
     (auto simp: Read_def split: list.splits)

declare readValue.simps [simp del]

text \<open>
  \<^verbatim>\<open>json.NewDecoder(body).Decode(v)\<close>: the value is read first; storing it needs a
  non-nil pointer.
\<close>

definition Decoder_Decode ::
  "('b, 'v) env \<Rightarrow> 'v dest \<Rightarrow> body \<Rightarrow> error option \<times> 'v dest \<times> body" where
  "Decoder_Decode env v b =
     (case readValue env [] b of
        (Inl e, b') \<Rightarrow> (Some e, v, b')
      | (Inr val, b') \<Rightarrow>
          (case v of
             ValueDest x \<Rightarrow> (let (e, x') = unmarshal_value env val x in (e, ValueDest x', b'))
           | _ \<Rightarrow> (Some InvalidUnmarshalError, v, b')))"

definition processResponseBody ::
  "('b, 'v) env \<Rightarrow> 'v dest \<Rightarrow> body \<Rightarrow> error option \<times> 'v dest \<times> body" where
  "processResponseBody env v b =
     (case v of
        WriterDest w \<Rightarrow>
          (case io_Copy w b of
             (Some err, w', b') \<Rightarrow> (Some (CopyFailed err), WriterDest w', b')
           | (None, w', b') \<Rightarrow> (None, WriterDest w', b'))
      | _ \<Rightarrow>
          (let (decErr, v', b') = Decoder_Decode env v b in
           if decErr = Some EOF then (None, v', b') else (decErr, v', b')))"

subsection \<open>The client and \<^verbatim>\<open>Do\<close>\<close>

record rate_limit =
  Limit :: int
  Remaining :: int
  Reset :: int

text \<open>The response envelope \<^verbatim>\<open>Response\<close>: the embedded \<^verbatim>\<open>*http.Response\<close> and the rate limit.\<close>

record response =
  HTTP :: http_response
  RateLimit :: rate_limit

definition newResponse :: "http_response \<Rightarrow> response" where
  "newResponse r = \<lparr>HTTP = r, RateLimit = \<lparr>Limit = 0, Remaining = 0, Reset = 0\<rparr>\<rparr>"

text \<open>
  \<^verbatim>\<open>Client\<close>: \<open>transport\<close> is \<^verbatim>\<open>c.client.Do\<close>, which returns a transport error or a
  response with its body. The service fields point back to the client and are left out.
\<close>

record client =
  transport :: "http_request \<Rightarrow> error + http_response \<times> body"
  BaseURL :: url
  UserAgent :: string
  token :: string

definition defaultBaseURL :: string where
  "defaultBaseURL = ''https://api.chatwork.com/v2''"

definition userAgent :: string where
  "userAgent = ''chatwork-go''"

type_synonym ClientOption = "client \<Rightarrow> client"

definition OptionHTTPClient ::
  "(http_request \<Rightarrow> error + http_response \<times> body) \<Rightarrow> ClientOption" where
  "OptionHTTPClient httpClient = (\<lambda>c. c\<lparr>transport := httpClient\<rparr>)"

definition OptionDebug :: "bool \<Rightarrow> ClientOption" where
  "OptionDebug debug = (\<lambda>c. c)"

text \<open>\<^verbatim>\<open>New\<close>; \<open>net\<close> is the transport of the default \<^verbatim>\<open>http.Client\<close>.\<close>

definition New ::
  "(http_request \<Rightarrow> error + http_response \<times> body) \<Rightarrow> string \<Rightarrow> ClientOption list \<Rightarrow> client" where
  "New net tok options =
     foldl (\<lambda>c option. option c)
       \<lparr>transport = net, BaseURL = defaultBaseURL, UserAgent = userAgent, token = tok\<rparr>
       options"

text \<open>
  \<^verbatim>\<open>Do\<close> returns the envelope and the error; the model returns with them the
  destination and the body as \<^verbatim>\<open>Do\<close> leaves them (no body when no response came).
  \<^verbatim>\<open>req.WithContext\<close> panics on a nil context. The deferred \<^verbatim>\<open>Close\<close> runs on every
  path after the response was received. The envelope wraps the pointer \<^verbatim>\<open>resp\<close>, so it
  shows the response as \<^verbatim>\<open>CheckResponse\<close> leaves it.
\<close>

definition Do ::
  "('b, 'v) env \<Rightarrow> client \<Rightarrow> ctx \<Rightarrow> http_request \<Rightarrow> 'v dest \<Rightarrow>
     (response option \<times> error option) \<times> 'v dest \<times> body option" where
  "Do env c ctx req v =
     (if ctx = NilContext then ((None, Some (Panic ''nil context'')), v, None)
      else
        (case transport c (req\<lparr>Ctx := ctx\<rparr>) of
           Inl err \<Rightarrow> ((None, Some err), v, None)
         | Inr (resp, b) \<Rightarrow>
             (let (err, resp, b1) = CheckResponse env resp b;
                  response = newResponse resp
              in if err \<noteq> None then ((Some response, err), v, Some (Close b1))
                 else if v \<noteq> NilDest \<and> StatusCode resp \<noteq> 204 then
                   (let (err, v', b2) = processResponseBody env v b1
                    in ((Some response, err), v', Some (Close b2)))
                 else ((Some response, err), v, Some (Close b1)))))"

subsection \<open>Request builders\<close>

text \<open>
  \<^verbatim>\<open>http.NewRequestWithContext\<close>: an empty method is \<^verbatim>\<open>GET\<close>; an invalid method, a nil
  context and an unparsable URL are errors; the request starts with an empty header.
\<close>

definition http_NewRequestWithContext ::
  "('b, 'v) env \<Rightarrow> ctx \<Rightarrow> string \<Rightarrow> string \<Rightarrow> bytes option \<Rightarrow> error + http_request" where
  "http_NewRequestWithContext env ctx method urlStr buf =
     (let method = (if method = [] then ''GET'' else method) in
      if \<not> validMethod env method then Inl (MethodError method)
      else if ctx = NilContext then Inl NilContextError
      else
        (case url_Parse env urlStr of
           Inl err \<Rightarrow> Inl err
         | Inr u \<Rightarrow>
             Inr \<lparr>Method = method, URL = u, Header = [], ReqBody = buf, Ctx = ctx\<rparr>))"

definition Header_Set :: "http_request \<Rightarrow> string \<Rightarrow> string \<Rightarrow> http_request" where
  "Header_Set req k v = req\<lparr>Header := AList.update k v (Header req)\<rparr>"

definition Header_Get :: "http_request \<Rightarrow> string \<Rightarrow> string option" where
  "Header_Get req k = map_of (Header req) k"

text \<open>
  \<^verbatim>\<open>NewRequestWithContext\<close> (JSON mode). The payload \<open>body\<close> is \<open>None\<close> for the nil
  interface value.
\<close>

definition NewRequestWithContext ::
  "('b, 'v) env \<Rightarrow> client \<Rightarrow> ctx \<Rightarrow> string \<Rightarrow> string \<Rightarrow> 'b option \<Rightarrow> error + http_request" where
  "NewRequestWithContext env c ctx method urlStr body =
     (let baseURL = TrimRight (BaseURL c) ''/'';
          urlStr = (if \<not> HasPrefix urlStr ''/'' then ''/'' @ urlStr else urlStr);
          fullURL = baseURL @ urlStr
      in case url_Parse env fullURL of
           Inl err \<Rightarrow> Inl err
         | Inr u \<Rightarrow>
             (case (case body of
                      None \<Rightarrow> Inr None
                    | Some x \<Rightarrow> (case json_Encode env x of Inl err \<Rightarrow> Inl err | Inr bs \<Rightarrow> Inr (Some bs))) of
                Inl err \<Rightarrow> Inl err
              | Inr buf \<Rightarrow>
                  (case http_NewRequestWithContext env ctx method u buf of
                     Inl err \<Rightarrow> Inl err
                   | Inr req \<Rightarrow>
                       (let req = (if body \<noteq> None
                                   then Header_Set req ''Content-Type'' ''application/json''
                                   else req);
                            req = Header_Set req ''Accept'' ''application/json'';
                            req = Header_Set req ''User-Agent'' (UserAgent c);
                            req = Header_Set req ''X-ChatWorkToken'' (token c)
                        in Inr req))))"

definition NewRequest ::
  "('b, 'v) env \<Rightarrow> client \<Rightarrow> string \<Rightarrow> string \<Rightarrow> 'b option \<Rightarrow> error + http_request" where
  "NewRequest env c method urlStr body = NewRequestWithContext env c Background method urlStr body"

text \<open>\<^verbatim>\<open>NewFormRequestWithContext\<close> (form mode): the URL is \<^verbatim>\<open>c.BaseURL.Parse(urlStr)\<close>.\<close>

definition NewFormRequestWithContext ::
  "('b, 'v) env \<Rightarrow> client \<Rightarrow> ctx \<Rightarrow> string \<Rightarrow> string \<Rightarrow> 'b option \<Rightarrow> error + http_request" where
  "NewFormRequestWithContext env c ctx method urlStr body =
     (case url_Resolve env (BaseURL c) urlStr of
        Inl err \<Rightarrow> Inl err
      | Inr u \<Rightarrow>
          (case (case body of
                   None \<Rightarrow> Inr None
                 | Some x \<Rightarrow> (case form_Encode env x of Inl err \<Rightarrow> Inl err | Inr bs \<Rightarrow> Inr (Some bs))) of
             Inl err \<Rightarrow> Inl err
           | Inr buf \<Rightarrow>
               (case http_NewRequestWithContext env ctx method u buf of
                  Inl err \<Rightarrow> Inl err
                | Inr req \<Rightarrow>
                    (let req = (if body \<noteq> None
                                then Header_Set req ''Content-Type'' ''application/x-www-form-urlencoded''
                                else req);
                         req = Header_Set req ''Accept'' ''application/json'';
                         req = Header_Set req ''User-Agent'' (UserAgent c);
                         req = Header_Set req ''X-ChatWorkToken'' (token c)
                     in Inr req))))"

definition NewFormRequest ::
  "('b, 'v) env \<Rightarrow> client \<Rightarrow> string \<Rightarrow> string \<Rightarrow> 'b option \<Rightarrow> error + http_request" where
  "NewFormRequest env c method urlStr body =
     NewFormRequestWithContext env c Background method urlStr body"

subsection \<open>Message endpoints\<close>

record MessageCreateParams =
  Body :: string
  SelfUnread :: bool

record MessageCreatedResponse =
  MessageID :: string

text \<open>
  \<^verbatim>\<open>MessagesService.Create\<close>. \<open>params\<close> is a pointer and may be nil; as a payload it is
  a non-nil interface value either way. \<^verbatim>\<open>new(MessageCreatedResponse)\<close> is the zero value.
\<close>

definition Create ::
  "(MessageCreateParams option, MessageCreatedResponse) env \<Rightarrow> client \<Rightarrow> ctx \<Rightarrow> int \<Rightarrow>
     MessageCreateParams option \<Rightarrow>
     MessageCreatedResponse option \<times> response option \<times> error option" where
  "Create env c ctx roomID params =
     (let u = ''rooms/'' @ itoa roomID @ ''/messages'' in
      case NewFormRequest env c ''POST'' u (Some params) of
        Inl err \<Rightarrow> (None, None, Some err)
      | Inr req \<Rightarrow>
          (let result = \<lparr>MessageID = []\<rparr>;
               ((resp, err), v, b) = Do env c ctx req (ValueDest result)
           in if err \<noteq> None then (None, resp, err)
              else (case v of ValueDest result \<Rightarrow> (Some result, resp, None)
                    | _ \<Rightarrow> (None, resp, None))))"

text \<open>\<^verbatim>\<open>MessagesService.SendMessage\<close>: the field left out of the literal is \<^verbatim>\<open>false\<close>.\<close>

definition SendMessage ::
  "(MessageCreateParams option, MessageCreatedResponse) env \<Rightarrow> client \<Rightarrow> ctx \<Rightarrow> int \<Rightarrow>
     string \<Rightarrow> MessageCreatedResponse option \<times> response option \<times> error option" where
  "SendMessage env c ctx roomID body =
     (let params = \<lparr>Body = body, SelfUnread = False\<rparr> in Create env c ctx roomID (Some params))"

subsection \<open>A library environment for the examples\<close>

text \<open>
  The examples below run the pipeline on concrete inputs and need the libraries to
  answer. \<open>example_env\<close> answers as the Go libraries do on the inputs the examples
  use: URLs of the shape \<^verbatim>\<open>scheme://host/path\<close> without escapes, query or fragment
  (\<^verbatim>\<open>url.Parse\<close> followed by \<^verbatim>\<open>String\<close> gives such a URL back), references that are
  paths without dot segments, the methods of the endpoints, payload strings that need
  no escaping, and the JSON inputs listed with \<open>example_checkValid\<close>.

  \<open>resolvePath\<close> is the function of that name of \<^verbatim>\<open>net/url\<close>, which
  \<^verbatim>\<open>ResolveReference\<close> applies to the paths of base and reference: an empty reference
  keeps the base path, a reference that starts with a slash replaces it, any other
  reference replaces what follows the last slash of the base path.
\<close>

fun until_slash :: "string \<Rightarrow> string \<times> string" where
  "until_slash [] = ([], [])"
| "until_slash (c # cs) =
     (if c = CHR ''/'' then ([], c # cs)
      else (let (h, p) = until_slash cs in (c # h, p)))"

fun split_origin :: "string \<Rightarrow> string \<times> string" where
  "split_origin (a # b # c # s) =
     (if [a, b, c] = ''://'' then (let (h, p) = until_slash s in ([a, b, c] @ h, p))
      else (let (orig, p) = split_origin (b # c # s) in (a # orig, p)))"
| "split_origin s = (s, [])"

definition resolvePath :: "string \<Rightarrow> string \<Rightarrow> string" where
  "resolvePath base ref =
     (let full =
        (if ref = [] then base
         else if hd ref \<noteq> CHR ''/''
         then rev (dropWhile (\<lambda>c. c \<noteq> CHR ''/'') (rev base)) @ ref
         else ref)
      in if full = [] then []
         else if hd full = CHR ''/'' then full
         else CHR ''/'' # full)"

definition ResolveReference :: "url \<Rightarrow> string \<Rightarrow> error + url" where
  "ResolveReference base ref =
     (let (orig, path) = split_origin base in Inr (orig @ resolvePath path ref))"

text \<open>
  The syntax check of \<^verbatim>\<open>encoding/json\<close> on the inputs of the examples: five valid
  documents; a page of markup, whose first byte cannot begin a value; and a document
  cut short inside a string. Any other input is not used by an example and is
  answered like the last.
\<close>

definition example_checkValid :: "bytes \<Rightarrow> string option" where
  \<open>example_checkValid d =
     (if d \<in> set [''{"errors":["Invalid request"]}'', ''{"Response":null}'',
                   ''{"Response":{"StatusCode":200}}'', ''{"message_id":"1234"}'', ''{"a":1}'']
      then None
      else if d = ''<html>Bad Gateway</html>''
      then Some (''invalid character '' @ [CHR 0x27] @ ''<'' @ [CHR 0x27] @
                 '' looking for beginning of value'')
      else if d = ''{"errors":["Inv'' then Some ''unexpected end of JSON input''
      else Some ''unexpected end of JSON input'')\<close>

text \<open>
  The decoding of the valid documents into \<^verbatim>\<open>&APIError{Response: r}\<close>: the key \<^verbatim>\<open>errors\<close>
  fills \<open>Errors\<close>; \<^verbatim>\<open>"Response":null\<close> sets the pointer to nil; an object under \<^verbatim>\<open>Response\<close>
  is decoded into the response the pointer points to, \<^verbatim>\<open>StatusCode\<close> into its
  \<open>StatusCode\<close>; a document with neither key leaves the \<^verbatim>\<open>APIError\<close> as it was.
\<close>

definition example_unmarshal_APIError ::
  "bytes \<Rightarrow> http_response \<Rightarrow> string option \<times> response_ptr \<times> http_response \<times> string list" where
  \<open>example_unmarshal_APIError d r =
     (if d = ''{"errors":["Invalid request"]}'' then (None, SameResponse, r, [''Invalid request''])
      else if d = ''{"Response":null}'' then (None, NilResponse, r, [])
      else if d = ''{"Response":{"StatusCode":200}}''
      then (None, SameResponse, r\<lparr>StatusCode := 200\<rparr>, [])
      else (None, SameResponse, r, []))\<close>

definition example_env :: "(MessageCreateParams option, MessageCreatedResponse) env" where
  \<open>example_env =
     \<lparr>url_Parse = (\<lambda>s. Inr s),
      url_Resolve = ResolveReference,
      validMethod = (\<lambda>m. m \<in> set [''GET'', ''POST'', ''PUT'', ''DELETE'']),
      json_Encode =
        (\<lambda>p. case p of
           None \<Rightarrow> Inr (''null'' @ [CHR 0x0A])
         | Some q \<Rightarrow>
             Inr (''{"Body":"'' @ Body q @ ''","SelfUnread":'' @
                  (if SelfUnread q then ''true'' else ''false'') @ ''}'' @ [CHR 0x0A])),
      form_Encode =
        (\<lambda>p. case p of
           None \<Rightarrow> Inr []
         | Some q \<Rightarrow>
             Inr (''body='' @ Body q @ (if SelfUnread q then ''&self_unread=true'' else []))),
      json_checkValid = example_checkValid,
      unmarshal_APIError = example_unmarshal_APIError,
      json_scan =
        (\<lambda>buf. if buf = ''{"message_id":"1234"}'' then Complete 21 else Incomplete),
      json_scan_eof = (\<lambda>buf. False),
      unmarshal_value = (\<lambda>val x. (None, \<lparr>MessageID = ''1234''\<rparr>))\<rparr>\<close>

text \<open>A request, a client whose transport is off line, and bodies for the examples.\<close>

definition example_request :: "string \<Rightarrow> url \<Rightarrow> http_request" where
  "example_request m u = \<lparr>Method = m, URL = u, Header = [], ReqBody = None, Ctx = Background\<rparr>"

definition offline :: "http_request \<Rightarrow> error + http_response \<times> body" where
  "offline req = Inl (TransportError ''no network'')"

definition fresh_body :: "bytes list \<Rightarrow> error \<Rightarrow> body" where
  "fresh_body chunks fin =
     \<lparr>pending = chunks, final = fin, reads = 0, at_end = False, closed = False\<rparr>"

text \<open>A transport that answers every request with the given status and body.\<close>

definition answering :: "int \<Rightarrow> body \<Rightarrow> http_request \<Rightarrow> error + http_response \<times> body" where
  "answering status b req = Inr (\<lparr>StatusCode = status, Request = req\<rparr>, b)"

subsection \<open>Vocabulary of the properties\<close>

text \<open>All the bytes a body still has to deliver, whatever the chunks \<^verbatim>\<open>Read\<close> cuts them into.\<close>

definition body_bytes :: "body \<Rightarrow> bytes" where
  "body_bytes b = concat (pending b)"

text \<open>A body is fully consumed once a \<^verbatim>\<open>Read\<close> has reported its end and nothing is pending.\<close>

definition fully_consumed :: "body \<Rightarrow> bool" where
  "fully_consumed b = (pending b = [] \<and> at_end b)"

text \<open>A writer accepts \<open>n\<close> more bytes without failing.\<close>

definition accepts :: "writer \<Rightarrow> nat \<Rightarrow> bool" where
  "accepts w n = (case room w of None \<Rightarrow> True | Some r \<Rightarrow> n \<le> r)"

text \<open>
  The message part of a rendered error as the specification words it: the messages in
  their order, a comma and a space between two neighbours.
\<close>

fun comma_joined :: "string list \<Rightarrow> string" where
  "comma_joined [] = []"
| "comma_joined [m] = m"
| "comma_joined (m # ms) = m @ '', '' @ comma_joined ms"

text \<open>Reading a decimal numeral back, to say what \<open>itoa_nat\<close> renders.\<close>

definition atoi_nat :: "string \<Rightarrow> nat" where
  "atoi_nat s = foldl (\<lambda>a c. 10 * a + (of_char c - 48)) 0 s"

text \<open>Two writers for the examples: a buffer that grows, a file with room for two bytes.\<close>

definition buffer :: writer where
  "buffer = \<lparr>received = [], room = None, werr = ErrShortWrite\<rparr>"

definition small_file :: writer where
  "small_file = \<lparr>received = [], room = Some 2, werr = IOError ''no space left on device''\<rparr>"

section \<open>Properties\<close>

subsection \<open>Strings and numerals\<close>

lemma Join_rest_comma_joined:
  "Join_rest (acc @ m) ms '', '' = acc @ comma_joined (m # ms)"
proof (induction ms arbitrary: acc m)
  case Nil
  then show ?case by simp
next
  case (Cons a ms)
  have "Join_rest (acc @ m) (a # ms) '', '' = Join_rest ((acc @ m @ '', '') @ a) ms '', ''"
    by simp
  also have "\<dots> = (acc @ m @ '', '') @ comma_joined (a # ms)"
    by (rule Cons.IH)
  finally show ?case by simp
qed

lemma Join_comma_joined: "Join ms '', '' = comma_joined ms"
proof (cases ms)
  case Nil
  then show ?thesis by (simp add: Join_def)
next
  case (Cons m ms')
  then show ?thesis
    using Join_rest_comma_joined [of "[]" m ms']
    by (cases ms') (simp_all add: Join_def)
qed

lemma digit_value: "d < 10 \<Longrightarrow> of_char (digit d) - 48 = d"
proof -
  assume "d < 10"
  then have "d \<in> {0, 1, 2, 3, 4, 5, 6, 7, 8, 9}" by auto
  then show ?thesis by (auto simp: digit_def)
qed

lemma atoi_itoa: "atoi_nat (itoa_nat n) = n"
proof (induction n rule: itoa_nat.induct)
  case (1 n)
  show ?case
  proof (cases "n < 10")
    case True
    then show ?thesis by (subst itoa_nat.simps) (simp add: digit_value atoi_nat_def)
  next
    case False
    with 1 have "atoi_nat (itoa_nat (n div 10)) = n div 10" by simp
    with False show ?thesis
      by (subst itoa_nat.simps) (simp add: digit_value atoi_nat_def)
  qed
qed

subsection \<open>Reading a body through\<close>

lemma ReadAll_from_Nil:
  "pending b = [] \<Longrightarrow>
   ReadAll_from acc b =
     ((acc, if final b = EOF then None else Some (final b)),
      b\<lparr>reads := Suc (reads b), at_end := True\<rparr>)"
  by (subst ReadAll_from.simps) (simp add: Read_def)

lemma ReadAll_from_Cons:
  "pending b = c # cs \<Longrightarrow>
   ReadAll_from acc b = ReadAll_from (acc @ c) (b\<lparr>pending := cs, reads := Suc (reads b)\<rparr>)"
  by (subst ReadAll_from.simps) (simp add: Read_def)

lemma ReadAll_from_result:
  "ReadAll_from acc b =
     ((acc @ concat (pending b), if final b = EOF then None else Some (final b)),
      b\<lparr>pending := [], reads := Suc (reads b + length (pending b)), at_end := True\<rparr>)"
proof (induction "pending b" arbitrary: acc b)
  case Nil
  then show ?case by (simp add: ReadAll_from_Nil)
next
  case (Cons c cs)
  from Cons.hyps(2) have p: "pending b = c # cs" by simp
  let ?b = "b\<lparr>pending := cs, reads := Suc (reads b)\<rparr>"
  have "cs = pending ?b" by simp
  from Cons.hyps(1) [OF this, of "acc @ c"] p show ?case
    by (simp add: ReadAll_from_Cons)
qed

lemma ReadAll_result:
  "ReadAll b =
     ((concat (pending b), if final b = EOF then None else Some (final b)),
      b\<lparr>pending := [], reads := Suc (reads b + length (pending b)), at_end := True\<rparr>)"
  by (simp add: ReadAll_def ReadAll_from_result)

lemma io_Copy_Nil:
  "pending b = [] \<Longrightarrow>
   io_Copy w b =
     (if final b = EOF then None else Some (final b), w,
      b\<lparr>reads := Suc (reads b), at_end := True\<rparr>)"
  by (subst io_Copy.simps) (simp add: Read_def copy_chunk_def)

lemma io_Copy_Cons:
  "pending b = c # cs \<Longrightarrow>
   io_Copy w b =
     (case copy_chunk w c of
        (Some e, w') \<Rightarrow> (Some e, w', b\<lparr>pending := cs, reads := Suc (reads b)\<rparr>)
      | (None, w') \<Rightarrow> io_Copy w' (b\<lparr>pending := cs, reads := Suc (reads b)\<rparr>))"
  by (subst io_Copy.simps) (simp add: Read_def split: prod.splits option.splits)

lemma copy_chunk_ok:
  "accepts w (length c) \<Longrightarrow>
   copy_chunk w c =
     (None, w\<lparr>received := received w @ c, room := map_option (\<lambda>r. r - length c) (room w)\<rparr>)"
  by (cases "room w") (auto simp: copy_chunk_def accepts_def Write_def)

lemma copy_chunk_short:
  "room w = Some r \<Longrightarrow> r < length c \<Longrightarrow>
   copy_chunk w c = (Some (werr w), w\<lparr>received := received w @ take r c, room := Some 0\<rparr>)"
  by (auto simp: copy_chunk_def Write_def)

text \<open>A copy into a writer with room for the whole body delivers every byte, in order.\<close>

lemma io_Copy_ok:
  "accepts w (length (concat (pending b))) \<Longrightarrow>
   io_Copy w b =
     (if final b = EOF then None else Some (final b),
      w\<lparr>received := received w @ concat (pending b),
        room := map_option (\<lambda>r. r - length (concat (pending b))) (room w)\<rparr>,
      b\<lparr>pending := [], reads := Suc (reads b + length (pending b)), at_end := True\<rparr>)"
proof (induction "pending b" arbitrary: w b)
  case Nil
  then show ?case by (simp add: io_Copy_Nil option.map_ident)
next
  case (Cons c cs)
  from Cons.hyps(2) have p: "pending b = c # cs" by simp
  let ?w = "w\<lparr>received := received w @ c, room := map_option (\<lambda>r. r - length c) (room w)\<rparr>"
  let ?b = "b\<lparr>pending := cs, reads := Suc (reads b)\<rparr>"
  from Cons.prems p have a1: "accepts w (length c)"
    by (auto simp: accepts_def split: option.splits)
  from Cons.prems p have a2: "accepts ?w (length (concat (pending ?b)))"
    by (auto simp: accepts_def split: option.splits)
  have cs: "cs = pending ?b" by simp
  have "io_Copy w b = io_Copy ?w ?b"
    using p a1 by (simp add: io_Copy_Cons copy_chunk_ok)
  also note Cons.hyps(1) [OF cs a2]
  finally show ?case using p
    by (cases "room w") (simp_all add: algebra_simps)
qed

text \<open>A copy into a writer with less room fails with the writer's error, at the byte that does not fit.\<close>

lemma io_Copy_short:
  "room w = Some r \<Longrightarrow> r < length (concat (pending b)) \<Longrightarrow>
   fst (io_Copy w b) = Some (werr w) \<and>
   received (fst (snd (io_Copy w b))) = received w @ take r (concat (pending b))"
proof (induction "pending b" arbitrary: w b r)
  case Nil
  then show ?case by simp
next
  case (Cons c cs)
  from Cons.hyps(2) have p: "pending b = c # cs" by simp
  let ?b = "b\<lparr>pending := cs, reads := Suc (reads b)\<rparr>"
  show ?case
  proof (cases "r < length c")
    case True
    with Cons.prems(1) p show ?thesis
      by (simp add: io_Copy_Cons copy_chunk_short)
  next
    case False
    let ?w = "w\<lparr>received := received w @ c, room := map_option (\<lambda>r. r - length c) (room w)\<rparr>"
    from False Cons.prems(1) have a1: "accepts w (length c)"
      by (simp add: accepts_def)
    have cs: "cs = pending ?b" by simp
    have r': "room ?w = Some (r - length c)" using Cons.prems(1) by simp
    have lt: "r - length c < length (concat (pending ?b))"
      using Cons.prems(2) p False by simp
    have "io_Copy w b = io_Copy ?w ?b"
      using p a1 by (simp add: io_Copy_Cons copy_chunk_ok)
    with Cons.hyps(1) [OF cs r' lt] p False show ?thesis
      by simp
  qed
qed

lemma readValue_Complete:
  "scan_buffer env buf = Complete n \<Longrightarrow> readValue env buf b = (Inr (take n buf), b)"
  by (subst readValue.simps) simp

lemma readValue_more:
  "scan_buffer env buf = Incomplete \<Longrightarrow> pending b = c # cs \<Longrightarrow>
   readValue env buf b = readValue env (buf @ c) (b\<lparr>pending := cs, reads := Suc (reads b)\<rparr>)"
  by (subst readValue.simps) (simp add: Read_def)

lemma readValue_Nil:
  "pending b = [] \<Longrightarrow> final b = EOF \<Longrightarrow>
   readValue env [] b = (Inl EOF, b\<lparr>reads := Suc (reads b), at_end := True\<rparr>)"
  by (subst readValue.simps)
     (simp add: scan_buffer_def scanEnd_at_EOF_def nonSpace_def Read_def)

lemma readValue_Cons_Nil:
  "pending b = [] # cs \<Longrightarrow>
   readValue env [] b = readValue env [] (b\<lparr>pending := cs, reads := Suc (reads b)\<rparr>)"
  by (subst readValue.simps) (simp add: scan_buffer_def Read_def)

text \<open>On a body that ends without a byte the decoder reports \<^verbatim>\<open>io.EOF\<close>.\<close>

lemma readValue_empty_body:
  "concat (pending b) = [] \<Longrightarrow> final b = EOF \<Longrightarrow>
   readValue env [] b =
     (Inl EOF, b\<lparr>pending := [], reads := Suc (reads b + length (pending b)), at_end := True\<rparr>)"
proof (induction "pending b" arbitrary: b)
  case Nil
  then show ?case by (simp add: readValue_Nil)
next
  case (Cons c cs)
  from Cons.hyps(2) Cons.prems(1) have p: "pending b = [] # cs" and cs: "concat cs = []"
    by (metis concat.simps(2) append_is_Nil_conv)+
  let ?b = "b\<lparr>pending := cs, reads := Suc (reads b)\<rparr>"
  have "readValue env [] ?b =
     (Inl EOF, ?b\<lparr>pending := [], reads := Suc (reads ?b + length (pending ?b)), at_end := True\<rparr>)"
    by (rule Cons.hyps(1)) (simp_all add: cs Cons.prems(2))
  with p show ?case by (simp add: readValue_Cons_Nil)
qed

lemma processResponseBody_empty:
  "\<not> is_writer v \<Longrightarrow> concat (pending b) = [] \<Longrightarrow> final b = EOF \<Longrightarrow>
   processResponseBody env v b =
     (None, v, b\<lparr>pending := [], reads := Suc (reads b + length (pending b)), at_end := True\<rparr>)"
  by (cases v)
     (simp_all add: processResponseBody_def Decoder_Decode_def readValue_empty_body is_writer_def)

subsection \<open>Classification\<close>

lemma CheckResponse_success:
  "200 \<le> StatusCode r \<Longrightarrow> StatusCode r \<le> 299 \<Longrightarrow> CheckResponse env r b = (None, r, b)"
  by (simp add: CheckResponse_def)

text \<open>On any other status the body is read to its end, whatever comes of it.\<close>

lemma CheckResponse_error_status:
  "\<not> (200 \<le> StatusCode r \<and> StatusCode r \<le> 299) \<Longrightarrow>
   fst (CheckResponse env r b) \<noteq> None \<and>
   snd (snd (CheckResponse env r b)) =
     b\<lparr>pending := [], reads := Suc (reads b + length (pending b)), at_end := True\<rparr>"
  by (simp add: CheckResponse_def ReadAll_result Let_def split: prod.splits option.splits)

text \<open>When the read fails, and when the body is not valid JSON, nothing is decoded.\<close>

lemma CheckResponse_read_failure:
  "\<not> (200 \<le> StatusCode r \<and> StatusCode r \<le> 299) \<Longrightarrow> final b \<noteq> EOF \<Longrightarrow>
   fst (CheckResponse env r b) = Some (APIErr \<lparr>Response = r, Errors = []\<rparr>)"
  by (simp add: CheckResponse_def ReadAll_result api_error_def Let_def)

lemma CheckResponse_syntax_error:
  "\<not> (200 \<le> StatusCode r \<and> StatusCode r \<le> 299) \<Longrightarrow> final b = EOF \<Longrightarrow>
   checkValid env (concat (pending b)) = Some m \<Longrightarrow>
   fst (CheckResponse env r b) =
     Some (APIErr \<lparr>Response = r, Errors = [''Failed to parse error response: '' @ m]\<rparr>)"
  by (simp add: CheckResponse_def ReadAll_result json_Unmarshal_def api_error_def Let_def)

text \<open>
  When the body is valid JSON, the error is what the decoder makes of the
  \<^verbatim>\<open>APIError\<close>, the pointer to the response included.
\<close>

lemma CheckResponse_decoded:
  "\<not> (200 \<le> StatusCode r \<and> StatusCode r \<le> 299) \<Longrightarrow> final b = EOF \<Longrightarrow>
   checkValid env (concat (pending b)) = None \<Longrightarrow>
   unmarshal_APIError env (concat (pending b)) r = (e, ptr, r', msgs) \<Longrightarrow>
   fst (CheckResponse env r b) =
     Some (api_error ptr r'
       (case e of Some m \<Rightarrow> [''Failed to parse error response: '' @ m] | None \<Rightarrow> msgs))"
  by (simp add: CheckResponse_def ReadAll_result json_Unmarshal_def Let_def split: option.splits)

lemma example_checkValid_simps:
  \<open>checkValid example_env ''{"Response":null}'' = None\<close>
  \<open>checkValid example_env ''{"Response":{"StatusCode":200}}'' = None\<close>
  \<open>checkValid example_env ''{"errors":["Invalid request"]}'' = None\<close>
  \<open>checkValid example_env ''{"errors":["Inv'' = Some ''unexpected end of JSON input''\<close>
  \<open>checkValid example_env ''<html>Bad Gateway</html>'' =
     Some (''invalid character '' @ [CHR 0x27] @ ''<'' @ [CHR 0x27] @
           '' looking for beginning of value'')\<close>
  by (simp_all add: checkValid_def example_env_def example_checkValid_def nonSpace_def isSpace_def)

text \<open>
  C1. The claim: for every response with a status code in 200..299, \<^verbatim>\<open>CheckResponse\<close>
  returns no error, and for every other response a non-nil \<^verbatim>\<open>APIError\<close> whose status is
  the status code of the response. The code decodes the body into the whole
  \<^verbatim>\<open>APIError\<close>, whose field \<open>Response\<close> is exported and not excluded from JSON: a body can
  rewrite the response the error carries. A response with status 500 and the body
  \<^verbatim>\<open>{"Response":{"StatusCode":200}}\<close> gives an \<^verbatim>\<open>APIError\<close> with status 200, and one with the
  body \<^verbatim>\<open>{"Response":null}\<close> gives an \<^verbatim>\<open>APIError\<close> without a response, so without a status.
\<close>

theorem CheckResponse_body_rewrites_response:
  \<open>fst (CheckResponse example_env
          \<lparr>StatusCode = 500, Request = example_request ''GET'' ''/test''\<rparr>
          (fresh_body [''{"Response":{"StatusCode":200}}''] EOF)) =
     Some (APIErr \<lparr>Response = \<lparr>StatusCode = 200, Request = example_request ''GET'' ''/test''\<rparr>,
                    Errors = []\<rparr>) \<and>
   fst (CheckResponse example_env
          \<lparr>StatusCode = 500, Request = example_request ''GET'' ''/test''\<rparr>
          (fresh_body [''{"Response":null}''] EOF)) =
     Some (APIErrNilResponse [])\<close>
proof -
  let ?r = "\<lparr>StatusCode = 500, Request = example_request ''GET'' ''/test''\<rparr>"
  have st: "\<not> (200 \<le> StatusCode ?r \<and> StatusCode ?r \<le> 299)" by simp
  have fin: "final (fresh_body cs EOF) = EOF" for cs
    by (simp add: fresh_body_def)
  have bytes: "concat (pending (fresh_body [d] EOF)) = d" for d
    by (simp add: fresh_body_def)
  have v1: \<open>checkValid example_env
              (concat (pending (fresh_body [''{"Response":{"StatusCode":200}}''] EOF))) = None\<close>
    by (simp only: bytes example_checkValid_simps)
  have u1: \<open>unmarshal_APIError example_env
              (concat (pending (fresh_body [''{"Response":{"StatusCode":200}}''] EOF))) ?r =
            (None, SameResponse, ?r\<lparr>StatusCode := 200\<rparr>, [])\<close>
    by (simp add: bytes example_env_def example_unmarshal_APIError_def)
  have 1: \<open>fst (CheckResponse example_env ?r (fresh_body [''{"Response":{"StatusCode":200}}''] EOF)) =
      Some (api_error SameResponse (?r\<lparr>StatusCode := 200\<rparr>) [])\<close>
    using CheckResponse_decoded [OF st fin v1 u1] by simp
  have v2: \<open>checkValid example_env (concat (pending (fresh_body [''{"Response":null}''] EOF))) = None\<close>
    by (simp only: bytes example_checkValid_simps)
  have u2: \<open>unmarshal_APIError example_env
              (concat (pending (fresh_body [''{"Response":null}''] EOF))) ?r =
            (None, NilResponse, ?r, [])\<close>
    by (simp add: bytes example_env_def example_unmarshal_APIError_def)
  have 2: \<open>fst (CheckResponse example_env ?r (fresh_body [''{"Response":null}''] EOF)) =
      Some (api_error NilResponse ?r [])\<close>
    using CheckResponse_decoded [OF st fin v2 u2] by simp
  from 1 2 show ?thesis by (simp add: api_error_def)
qed

text \<open>
  C2 as stated fails when reading the body fails: the guard \<^verbatim>\<open>err == nil\<close> skips the
  parse, and the message list stays empty. A response with status 500 whose body
  delivers the start of a JSON document and then breaks off with a read error: the
  bytes delivered are not valid JSON, and the error has no message.
\<close>

theorem CheckResponse_read_failure_counterexample:
  \<open>\<not> (200 \<le> (500::int) \<and> (500::int) \<le> 299) \<and>
   checkValid example_env
     (body_bytes (fresh_body [''{"errors":["Inv''] ErrUnexpectedEOF)) =
     Some ''unexpected end of JSON input'' \<and>
   fst (CheckResponse example_env
          \<lparr>StatusCode = 500, Request = example_request ''GET'' ''/test''\<rparr>
          (fresh_body [''{"errors":["Inv''] ErrUnexpectedEOF)) =
     Some (APIErr \<lparr>Response = \<lparr>StatusCode = 500, Request = example_request ''GET'' ''/test''\<rparr>,
                    Errors = []\<rparr>)\<close>
proof -
  have \<open>body_bytes (fresh_body [''{"errors":["Inv''] ErrUnexpectedEOF) = ''{"errors":["Inv''\<close>
    by (simp add: body_bytes_def fresh_body_def)
  moreover have \<open>fst (CheckResponse example_env
          \<lparr>StatusCode = 500, Request = example_request ''GET'' ''/test''\<rparr>
          (fresh_body [''{"errors":["Inv''] ErrUnexpectedEOF)) =
     Some (APIErr \<lparr>Response = \<lparr>StatusCode = 500, Request = example_request ''GET'' ''/test''\<rparr>,
                    Errors = []\<rparr>)\<close>
    by (rule CheckResponse_read_failure) (simp_all add: fresh_body_def)
  ultimately show ?thesis
    by (simp only: example_checkValid_simps) simp
qed

text \<open>
  C2, amended. For every response with a status code outside 200..299 whose body is
  read to its end without a read error and is not valid JSON, \<^verbatim>\<open>CheckResponse\<close> returns a
  non-nil \<^verbatim>\<open>APIError\<close> on the response, whose message list is the single synthetic message
  \<^verbatim>\<open>Failed to parse error response: \<close> followed by the syntax error; an empty body is such a
  body. When reading the body fails, the \<^verbatim>\<open>APIError\<close> is returned with an empty message list.
\<close>

theorem CheckResponse_parse_failure:
  "\<not> (200 \<le> StatusCode r \<and> StatusCode r \<le> 299) \<Longrightarrow>
   (final b = EOF \<longrightarrow> checkValid env (body_bytes b) = Some m \<longrightarrow>
      fst (CheckResponse env r b) =
        Some (APIErr \<lparr>Response = r, Errors = [''Failed to parse error response: '' @ m]\<rparr>)) \<and>
   (final b = EOF \<longrightarrow> body_bytes b = [] \<longrightarrow>
      fst (CheckResponse env r b) =
        Some (APIErr \<lparr>Response = r,
           Errors = [''Failed to parse error response: unexpected end of JSON input'']\<rparr>)) \<and>
   (final b \<noteq> EOF \<longrightarrow>
      fst (CheckResponse env r b) = Some (APIErr \<lparr>Response = r, Errors = []\<rparr>))"
proof (intro conjI impI)
  assume st: "\<not> (200 \<le> StatusCode r \<and> StatusCode r \<le> 299)"
  {
    assume "final b = EOF" and "checkValid env (body_bytes b) = Some m"
    then show "fst (CheckResponse env r b) =
        Some (APIErr \<lparr>Response = r, Errors = [''Failed to parse error response: '' @ m]\<rparr>)"
      using st by (simp add: CheckResponse_syntax_error body_bytes_def)
  next
    assume fin: "final b = EOF" and "body_bytes b = []"
    then have "concat (pending b) = []"
      by (simp only: body_bytes_def)
    then have "checkValid env (concat (pending b)) = Some ''unexpected end of JSON input''"
      by (simp only: checkValid_def nonSpace_def list_ex_Nil_iff if_False)
    from CheckResponse_syntax_error [OF st fin this]
    show "fst (CheckResponse env r b) =
        Some (APIErr \<lparr>Response = r,
           Errors = [''Failed to parse error response: unexpected end of JSON input'']\<rparr>)"
      by simp
  next
    assume "final b \<noteq> EOF"
    then show "fst (CheckResponse env r b) = Some (APIErr \<lparr>Response = r, Errors = []\<rparr>)"
      using st by (simp add: CheckResponse_read_failure)
  }
qed

text \<open>
  The amended C2 at a 500 whose body is a page of markup (the decoder rejects its first
  byte), at a 404 with an empty body, and at a 502 whose body breaks off.
\<close>

theorem CheckResponse_parse_failure_witness:
  \<open>fst (CheckResponse example_env
          \<lparr>StatusCode = 500, Request = example_request ''GET'' ''/test''\<rparr>
          (fresh_body [''<html>'', ''Bad Gateway</html>''] EOF)) =
      Some (APIErr \<lparr>Response = \<lparr>StatusCode = 500, Request = example_request ''GET'' ''/test''\<rparr>,
         Errors = [''Failed to parse error response: invalid character '' @ [CHR 0x27] @ ''<'' @
                   [CHR 0x27] @ '' looking for beginning of value'']\<rparr>) \<and>
   fst (CheckResponse example_env
          \<lparr>StatusCode = 404, Request = example_request ''GET'' ''/test''\<rparr>
          (fresh_body [] EOF)) =
      Some (APIErr \<lparr>Response = \<lparr>StatusCode = 404, Request = example_request ''GET'' ''/test''\<rparr>,
         Errors = [''Failed to parse error response: unexpected end of JSON input'']\<rparr>) \<and>
   fst (CheckResponse example_env
          \<lparr>StatusCode = 502, Request = example_request ''GET'' ''/test''\<rparr>
          (fresh_body [''{"errors":["Inv''] ErrUnexpectedEOF)) =
      Some (APIErr \<lparr>Response = \<lparr>StatusCode = 502, Request = example_request ''GET'' ''/test''\<rparr>,
         Errors = []\<rparr>)\<close>
proof -
  let ?rq = "example_request ''GET'' ''/test''"
  have bb: "body_bytes (fresh_body [''<html>'', ''Bad Gateway</html>''] EOF) =
      ''<html>Bad Gateway</html>''"
    by (simp add: fresh_body_def body_bytes_def)
  have u: \<open>checkValid example_env (body_bytes (fresh_body [''<html>'', ''Bad Gateway</html>''] EOF)) =
      Some (''invalid character '' @ [CHR 0x27] @ ''<'' @ [CHR 0x27] @
            '' looking for beginning of value'')\<close>
    by (simp only: bb example_checkValid_simps)
  have a: "final (fresh_body [''<html>'', ''Bad Gateway</html>''] EOF) = EOF"
    and b: "final (fresh_body [] EOF) = EOF" and c: "body_bytes (fresh_body [] EOF) = []"
    and d: \<open>final (fresh_body [''{"errors":["Inv''] ErrUnexpectedEOF) \<noteq> EOF\<close>
    by (simp_all add: fresh_body_def body_bytes_def)
  have "\<not> (200 \<le> StatusCode \<lparr>StatusCode = 500, Request = ?rq\<rparr> \<and>
            StatusCode \<lparr>StatusCode = 500, Request = ?rq\<rparr> \<le> 299)" by simp
  from CheckResponse_parse_failure
         [OF this, of "fresh_body [''<html>'', ''Bad Gateway</html>''] EOF" example_env
            "''invalid character '' @ [CHR 0x27] @ ''<'' @ [CHR 0x27] @
             '' looking for beginning of value''"] a u
  have 1: "fst (CheckResponse example_env \<lparr>StatusCode = 500, Request = ?rq\<rparr>
                 (fresh_body [''<html>'', ''Bad Gateway</html>''] EOF)) =
      Some (APIErr \<lparr>Response = \<lparr>StatusCode = 500, Request = ?rq\<rparr>,
         Errors = [''Failed to parse error response: invalid character '' @ [CHR 0x27] @ ''<'' @
                   [CHR 0x27] @ '' looking for beginning of value'']\<rparr>)"
    by simp
  have "\<not> (200 \<le> StatusCode \<lparr>StatusCode = 404, Request = ?rq\<rparr> \<and>
            StatusCode \<lparr>StatusCode = 404, Request = ?rq\<rparr> \<le> 299)" by simp
  from CheckResponse_parse_failure [OF this, of "fresh_body [] EOF" example_env "[]"] b c
  have 2: "fst (CheckResponse example_env \<lparr>StatusCode = 404, Request = ?rq\<rparr>
                 (fresh_body [] EOF)) =
      Some (APIErr \<lparr>Response = \<lparr>StatusCode = 404, Request = ?rq\<rparr>,
         Errors = [''Failed to parse error response: unexpected end of JSON input'']\<rparr>)"
    by blast
  have "\<not> (200 \<le> StatusCode \<lparr>StatusCode = 502, Request = ?rq\<rparr> \<and>
            StatusCode \<lparr>StatusCode = 502, Request = ?rq\<rparr> \<le> 299)" by simp
  from CheckResponse_parse_failure
         [OF this, of \<open>fresh_body [''{"errors":["Inv''] ErrUnexpectedEOF\<close> example_env "[]"] d
  have 3: \<open>fst (CheckResponse example_env \<lparr>StatusCode = 502, Request = ?rq\<rparr>
                 (fresh_body [''{"errors":["Inv''] ErrUnexpectedEOF)) =
      Some (APIErr \<lparr>Response = \<lparr>StatusCode = 502, Request = ?rq\<rparr>, Errors = []\<rparr>)\<close>
    by blast
  from 1 2 3 show ?thesis by blast
qed

subsection \<open>Rendering of an error\<close>

text \<open>
  C3. The rendering of an \<^verbatim>\<open>APIError\<close> is method, space, URL, colon and space, the status
  code in decimal, space, and the messages in their order joined by comma and space;
  for \<^verbatim>\<open>POST\<close>, \<^verbatim>\<open>/rooms\<close>, 400 and the two messages of the test it is exactly
  \<^verbatim>\<open>POST /rooms: 400 Invalid parameters, Room name is required\<close>; and the rendering is
  determined by these four parts: errors that agree on them render the same.
\<close>

theorem APIError_Error_format:
  "Error e =
     Method (Request (Response e)) @ '' '' @ URL (Request (Response e)) @ '': '' @
     itoa (StatusCode (Response e)) @ '' '' @ comma_joined (Errors e) \<and>
   Error \<lparr>Response = \<lparr>StatusCode = 400, Request = example_request ''POST'' ''/rooms''\<rparr>,
          Errors = [''Invalid parameters'', ''Room name is required'']\<rparr> =
     ''POST /rooms: 400 Invalid parameters, Room name is required'' \<and>
   (Method (Request (Response e)) = Method (Request (Response e')) \<and>
    URL (Request (Response e)) = URL (Request (Response e')) \<and>
    StatusCode (Response e) = StatusCode (Response e') \<and>
    Errors e = Errors e' \<longrightarrow> Error e = Error e')"
  by (simp add: Error_def Join_comma_joined example_request_def itoa_def itoa_nat.simps digit_def)

text \<open>C3 at two errors that differ in the headers of the request only.\<close>

theorem APIError_Error_format_witness:
  "Error \<lparr>Response = \<lparr>StatusCode = 400, Request = example_request ''POST'' ''/rooms''\<rparr>,
          Errors = [''Invalid parameters'', ''Room name is required'']\<rparr> =
   Error \<lparr>Response = \<lparr>StatusCode = 400,
            Request = (example_request ''POST'' ''/rooms'')\<lparr>Header := [(''Accept'', ''*/*'')]\<rparr>\<rparr>,
          Errors = [''Invalid parameters'', ''Room name is required'']\<rparr>"
proof -
  let ?e = "\<lparr>Response = \<lparr>StatusCode = 400, Request = example_request ''POST'' ''/rooms''\<rparr>,
             Errors = [''Invalid parameters'', ''Room name is required'']\<rparr>"
  let ?e' = "\<lparr>Response = \<lparr>StatusCode = 400,
               Request = (example_request ''POST'' ''/rooms'')\<lparr>Header := [(''Accept'', ''*/*'')]\<rparr>\<rparr>,
             Errors = [''Invalid parameters'', ''Room name is required'']\<rparr>"
  have h: "Method (Request (Response ?e)) = Method (Request (Response ?e')) \<and>
           URL (Request (Response ?e)) = URL (Request (Response ?e')) \<and>
           StatusCode (Response ?e) = StatusCode (Response ?e') \<and>
           Errors ?e = Errors ?e'"
    by (simp add: example_request_def)
  from APIError_Error_format [of ?e ?e', THEN conjunct2, THEN conjunct2, THEN mp, OF h]
  show ?thesis .
qed

subsection \<open>\<^verbatim>\<open>Do\<close> and the decoding of a success body\<close>

text \<open>
  C4. For every response with status 204 and every destination (nil included), \<^verbatim>\<open>Do\<close>
  skips decoding: it returns the envelope and no error, the destination is as it was,
  and the body is as the transport delivered it (no \<^verbatim>\<open>Read\<close> was made) but closed.
\<close>

theorem Do_no_content:
  "ctx \<noteq> NilContext \<Longrightarrow> transport c (req\<lparr>Ctx := ctx\<rparr>) = Inr (resp, b) \<Longrightarrow>
   StatusCode resp = 204 \<Longrightarrow>
   Do env c ctx req v = ((Some (newResponse resp), None), v, Some (b\<lparr>closed := True\<rparr>))"
  by (simp add: Do_def CheckResponse_success Close_def)

text \<open>C4 at a transport that answers 204, with a structured destination.\<close>

theorem Do_no_content_witness:
  "Do example_env (New (answering 204 (fresh_body [] EOF)) ''token'' []) Background
      (example_request ''PUT'' ''https://api.chatwork.com/v2/rooms/1/messages/read'')
      (ValueDest \<lparr>MessageID = []\<rparr>) =
     ((Some (newResponse \<lparr>StatusCode = 204,
               Request = example_request ''PUT'' ''https://api.chatwork.com/v2/rooms/1/messages/read''\<rparr>),
       None),
      ValueDest \<lparr>MessageID = []\<rparr>,
      Some ((fresh_body [] EOF)\<lparr>closed := True\<rparr>))"
  using Do_no_content
    [of Background "New (answering 204 (fresh_body [] EOF)) ''token'' []"
        "example_request ''PUT'' ''https://api.chatwork.com/v2/rooms/1/messages/read''"
        "\<lparr>StatusCode = 204,
          Request = example_request ''PUT'' ''https://api.chatwork.com/v2/rooms/1/messages/read''\<rparr>"
        "fresh_body [] EOF" example_env "ValueDest \<lparr>MessageID = []\<rparr>"]
  by (simp add: New_def answering_def example_request_def)

text \<open>
  C5. For every response with a status in 200..299 other than 204 whose body ends
  without delivering a byte, and every destination that is not a writer, decoding
  returns no error and leaves the destination as it was (the zero value the caller
  allocated): so does \<^verbatim>\<open>processResponseBody\<close>, and so does \<^verbatim>\<open>Do\<close>.
\<close>

theorem Do_empty_success_body:
  "ctx \<noteq> NilContext \<Longrightarrow> transport c (req\<lparr>Ctx := ctx\<rparr>) = Inr (resp, b) \<Longrightarrow>
   200 \<le> StatusCode resp \<Longrightarrow> StatusCode resp \<le> 299 \<Longrightarrow> StatusCode resp \<noteq> 204 \<Longrightarrow>
   body_bytes b = [] \<Longrightarrow> final b = EOF \<Longrightarrow> \<not> is_writer v \<Longrightarrow>
   fst (processResponseBody env v b) = None \<and>
   fst (snd (processResponseBody env v b)) = v \<and>
   fst (Do env c ctx req v) = (Some (newResponse resp), None) \<and>
   fst (snd (Do env c ctx req v)) = v"
proof -
  assume ctx: "ctx \<noteq> NilContext" and tr: "transport c (req\<lparr>Ctx := ctx\<rparr>) = Inr (resp, b)"
    and st: "200 \<le> StatusCode resp" "StatusCode resp \<le> 299" "StatusCode resp \<noteq> 204"
    and empty: "body_bytes b = []" and fin: "final b = EOF" and v: "\<not> is_writer v"
  from empty have "concat (pending b) = []" by (simp only: body_bytes_def)
  note p = processResponseBody_empty [OF v this fin, of env]
  have d: "Do env c ctx req v =
             (if v \<noteq> NilDest
              then (let (err, v', b2) = processResponseBody env v b
                    in ((Some (newResponse resp), err), v', Some (Close b2)))
              else ((Some (newResponse resp), None), v, Some (Close b)))"
    using ctx tr st by (simp add: Do_def CheckResponse_success Let_def)
  show ?thesis
    by (simp add: d p)
qed

text \<open>C5 at a transport that answers 200 with an empty body.\<close>

theorem Do_empty_success_body_witness:
  "fst (processResponseBody example_env (ValueDest \<lparr>MessageID = []\<rparr>) (fresh_body [] EOF)) = None \<and>
   fst (snd (processResponseBody example_env (ValueDest \<lparr>MessageID = []\<rparr>) (fresh_body [] EOF))) =
     ValueDest \<lparr>MessageID = []\<rparr> \<and>
   fst (Do example_env (New (answering 200 (fresh_body [] EOF)) ''token'' []) Background
          (example_request ''POST'' ''https://api.chatwork.com/rooms/1/messages'')
          (ValueDest \<lparr>MessageID = []\<rparr>)) =
     (Some (newResponse \<lparr>StatusCode = 200,
              Request = example_request ''POST'' ''https://api.chatwork.com/rooms/1/messages''\<rparr>),
      None) \<and>
   fst (snd (Do example_env (New (answering 200 (fresh_body [] EOF)) ''token'' []) Background
          (example_request ''POST'' ''https://api.chatwork.com/rooms/1/messages'')
          (ValueDest \<lparr>MessageID = []\<rparr>))) = ValueDest \<lparr>MessageID = []\<rparr>"
  using Do_empty_success_body
    [of Background "New (answering 200 (fresh_body [] EOF)) ''token'' []"
        "example_request ''POST'' ''https://api.chatwork.com/rooms/1/messages''"
        "\<lparr>StatusCode = 200,
          Request = example_request ''POST'' ''https://api.chatwork.com/rooms/1/messages''\<rparr>"
        "fresh_body [] EOF" "ValueDest \<lparr>MessageID = []\<rparr>" example_env]
  by (simp add: New_def answering_def example_request_def fresh_body_def body_bytes_def
        is_writer_def)

text \<open>
  C6. For every body and every destination that is a writer, \<^verbatim>\<open>processResponseBody\<close>
  copies the body into the writer without interpreting it (the result does not depend
  on the JSON library): when the body ends and the writer takes all of it, there is no
  error, the writer has received exactly the bytes of the body after what it held, and
  the body is consumed; when reading the body fails, or the writer fails, the failure
  is returned, wrapped as a copy failure.
\<close>

theorem processResponseBody_passthrough:
  "(accepts w (length (body_bytes b)) \<and> final b = EOF \<longrightarrow>
      fst (processResponseBody env (WriterDest w) b) = None \<and>
      (\<exists>w'. fst (snd (processResponseBody env (WriterDest w) b)) = WriterDest w' \<and>
            received w' = received w @ body_bytes b) \<and>
      fully_consumed (snd (snd (processResponseBody env (WriterDest w) b)))) \<and>
   (accepts w (length (body_bytes b)) \<and> final b \<noteq> EOF \<longrightarrow>
      fst (processResponseBody env (WriterDest w) b) = Some (CopyFailed (final b))) \<and>
   (\<not> accepts w (length (body_bytes b)) \<longrightarrow>
      fst (processResponseBody env (WriterDest w) b) = Some (CopyFailed (werr w))) \<and>
   processResponseBody env' (WriterDest w) b = processResponseBody env (WriterDest w) b"
proof (intro conjI impI)
  assume "accepts w (length (body_bytes b)) \<and> final b = EOF"
  then have ok: "accepts w (length (concat (pending b)))" and fin: "final b = EOF"
    by (simp_all add: body_bytes_def)
  show "fst (processResponseBody env (WriterDest w) b) = None"
    by (simp add: processResponseBody_def io_Copy_ok [OF ok] fin)
  show "\<exists>w'. fst (snd (processResponseBody env (WriterDest w) b)) = WriterDest w' \<and>
            received w' = received w @ body_bytes b"
    by (simp add: processResponseBody_def io_Copy_ok [OF ok] fin body_bytes_def)
  show "fully_consumed (snd (snd (processResponseBody env (WriterDest w) b)))"
    by (simp add: processResponseBody_def io_Copy_ok [OF ok] fin fully_consumed_def)
next
  assume "accepts w (length (body_bytes b)) \<and> final b \<noteq> EOF"
  then have ok: "accepts w (length (concat (pending b)))" and fin: "final b \<noteq> EOF"
    by (simp_all add: body_bytes_def)
  show "fst (processResponseBody env (WriterDest w) b) = Some (CopyFailed (final b))"
    by (simp add: processResponseBody_def io_Copy_ok [OF ok] fin)
next
  assume "\<not> accepts w (length (body_bytes b))"
  then obtain r where r: "room w = Some r" and lt: "r < length (concat (pending b))"
    by (auto simp: accepts_def body_bytes_def split: option.splits)
  from io_Copy_short [OF r lt] have "fst (io_Copy w b) = Some (werr w)" by simp
  then show "fst (processResponseBody env (WriterDest w) b) = Some (CopyFailed (werr w))"
    by (cases "io_Copy w b") (simp add: processResponseBody_def)
next
  show "processResponseBody env' (WriterDest w) b = processResponseBody env (WriterDest w) b"
    by (simp add: processResponseBody_def)
qed

text \<open>
  C6 at a buffer and a body in two chunks, at a body that breaks off, and at a file
  with room for two bytes.
\<close>

theorem processResponseBody_passthrough_witness:
  \<open>fst (processResponseBody example_env (WriterDest buffer) (fresh_body [''{"a'', ''":1}''] EOF)) = None \<and>
   (\<exists>w'. fst (snd (processResponseBody example_env (WriterDest buffer)
                      (fresh_body [''{"a'', ''":1}''] EOF))) = WriterDest w' \<and>
         received w' = ''{"a":1}'') \<and>
   fst (processResponseBody example_env (WriterDest buffer)
          (fresh_body [''{"a''] (IOError ''connection reset''))) =
     Some (CopyFailed (IOError ''connection reset'')) \<and>
   fst (processResponseBody example_env (WriterDest small_file) (fresh_body [''{"a'', ''":1}''] EOF)) =
     Some (CopyFailed (IOError ''no space left on device''))\<close>
  using processResponseBody_passthrough
          [of buffer \<open>fresh_body [''{"a'', ''":1}''] EOF\<close> example_env example_env]
        processResponseBody_passthrough
          [of buffer \<open>fresh_body [''{"a''] (IOError ''connection reset'')\<close> example_env example_env]
        processResponseBody_passthrough
          [of small_file \<open>fresh_body [''{"a'', ''":1}''] EOF\<close> example_env example_env]
  by (simp add: accepts_def buffer_def small_file_def fresh_body_def body_bytes_def)

text \<open>
  C9 as stated fails: \<^verbatim>\<open>Do\<close> closes the body on every path, but nothing reads it to
  its end. With a nil destination (as \<^verbatim>\<open>RoomsService.Delete\<close> passes) and a 200 response
  that has a body, the body comes back closed with everything still pending.
\<close>

theorem Do_leaves_body_unread_counterexample:
  \<open>snd (snd (Do example_env
               (New (answering 200 (fresh_body [''{"message_id":"1234"}''] EOF)) ''token'' [])
               Background (example_request ''DELETE'' ''https://api.chatwork.com/v2/rooms/1'')
               NilDest)) =
     Some \<lparr>pending = [''{"message_id":"1234"}''], final = EOF, reads = 0, at_end = False,
            closed = True\<rparr> \<and>
   \<not> fully_consumed \<lparr>pending = [''{"message_id":"1234"}''], final = EOF, reads = 0,
                       at_end = False, closed = True\<rparr>\<close>
  by (simp add: Do_def New_def answering_def CheckResponse_def Close_def fresh_body_def
        fully_consumed_def)

text \<open>
  C9, amended. For every response received by \<^verbatim>\<open>Do\<close>, whatever the outcome (success,
  decoding failure, error status), the response body is closed before \<^verbatim>\<open>Do\<close> returns;
  when the status code is outside 200..299 it has also been read to its end.
\<close>

theorem Do_closes_body:
  "ctx \<noteq> NilContext \<Longrightarrow> transport c (req\<lparr>Ctx := ctx\<rparr>) = Inr (resp, b) \<Longrightarrow>
   (\<exists>b'. snd (snd (Do env c ctx req v)) = Some b' \<and> closed b' \<and>
      (\<not> (200 \<le> StatusCode resp \<and> StatusCode resp \<le> 299) \<longrightarrow> fully_consumed b'))"
proof (cases "200 \<le> StatusCode resp \<and> StatusCode resp \<le> 299")
  case True
  assume "ctx \<noteq> NilContext" "transport c (req\<lparr>Ctx := ctx\<rparr>) = Inr (resp, b)"
  with True show ?thesis
    by (cases "processResponseBody env v b")
       (simp add: Do_def CheckResponse_success Close_def Let_def)
next
  case False
  assume a: "ctx \<noteq> NilContext" "transport c (req\<lparr>Ctx := ctx\<rparr>) = Inr (resp, b)"
  obtain e r' b1 where cr: "CheckResponse env resp b = (e, r', b1)"
    by (cases "CheckResponse env resp b") auto
  from CheckResponse_error_status [OF False, of env b] cr
  have e: "e \<noteq> None"
    and b1: "b1 = b\<lparr>pending := [], reads := Suc (reads b + length (pending b)), at_end := True\<rparr>"
    by simp_all
  from a e show ?thesis
    by (simp add: Do_def cr Let_def Close_def fully_consumed_def b1)
qed

text \<open>The amended C9 at a transport that answers 400 with an error document.\<close>

theorem Do_closes_body_witness:
  \<open>\<exists>b'. snd (snd (Do example_env
                 (New (answering 400 (fresh_body [''{"errors":["Invalid request"]}''] EOF)) ''token'' [])
                 Background (example_request ''GET'' ''https://api.chatwork.com/v2/me'')
                 (ValueDest \<lparr>MessageID = []\<rparr>))) = Some b' \<and>
        closed b' \<and> fully_consumed b'\<close>
  using Do_closes_body
    [of Background
        \<open>New (answering 400 (fresh_body [''{"errors":["Invalid request"]}''] EOF)) ''token'' []\<close>
        "example_request ''GET'' ''https://api.chatwork.com/v2/me''"
        "\<lparr>StatusCode = 400, Request = example_request ''GET'' ''https://api.chatwork.com/v2/me''\<rparr>"
        \<open>fresh_body [''{"errors":["Invalid request"]}''] EOF\<close>
        example_env "ValueDest \<lparr>MessageID = []\<rparr>"]
  by (simp add: New_def answering_def example_request_def)

subsection \<open>Request builders\<close>

lemmas build_simps =
  NewFormRequestWithContext_def NewRequestWithContext_def New_def defaultBaseURL_def
  userAgent_def example_env_def ResolveReference_def resolvePath_def
  http_NewRequestWithContext_def Header_Set_def TrimRight_def HasPrefix_def

text \<open>
  In JSON mode the path is appended to the base without its trailing slashes, with a
  slash put in front when it has none: a path and the same path behind a slash build
  the same request, whatever the base and the libraries.
\<close>

lemma NewRequestWithContext_leading_slash:
  "\<not> HasPrefix p ''/'' \<Longrightarrow>
   NewRequestWithContext env c ctx m (''/'' @ p) body = NewRequestWithContext env c ctx m p body"
  by (simp add: NewRequestWithContext_def HasPrefix_def)

lemma NewRequestWithContext_joined:
  "NewRequestWithContext example_env c ctx m p body = Inr req \<Longrightarrow>
   URL req = TrimRight (BaseURL c) ''/'' @ (if HasPrefix p ''/'' then p else ''/'' @ p)"
  by (auto simp: NewRequestWithContext_def http_NewRequestWithContext_def Header_Set_def
        example_env_def Let_def split: sum.splits option.splits if_splits)

text \<open>
  C7. The claim: in both modes the path is joined to the base by stripping the trailing
  slash of the base and giving the path one leading slash, so that a path with and
  without a leading slash build the same URL. The form mode does not: it resolves the
  path as a reference against the base. With the default base
  \<^verbatim>\<open>https://api.chatwork.com/v2\<close> the form builder sends \<^verbatim>\<open>rooms/1/messages\<close> to
  \<^verbatim>\<open>https://api.chatwork.com/rooms/1/messages\<close>, where the JSON builder sends it to
  \<^verbatim>\<open>https://api.chatwork.com/v2/rooms/1/messages\<close>; and with a base that ends in a slash,
  \<^verbatim>\<open>rooms\<close> and \<^verbatim>\<open>/rooms\<close> get different URLs.
\<close>

theorem NewFormRequest_ignores_base_path:
  "map_sum id URL (NewFormRequestWithContext example_env (New offline ''token'' []) Background
                     ''POST'' ''rooms/1/messages'' None) =
     Inr ''https://api.chatwork.com/rooms/1/messages'' \<and>
   map_sum id URL (NewRequestWithContext example_env (New offline ''token'' []) Background
                     ''POST'' ''rooms/1/messages'' None) =
     Inr ''https://api.chatwork.com/v2/rooms/1/messages'' \<and>
   map_sum id URL (NewFormRequestWithContext example_env
                     ((New offline ''token'' [])\<lparr>BaseURL := ''https://api.chatwork.com/v2/''\<rparr>)
                     Background ''GET'' ''rooms'' None) =
     Inr ''https://api.chatwork.com/v2/rooms'' \<and>
   map_sum id URL (NewFormRequestWithContext example_env
                     ((New offline ''token'' [])\<lparr>BaseURL := ''https://api.chatwork.com/v2/''\<rparr>)
                     Background ''GET'' ''/rooms'' None) =
     Inr ''https://api.chatwork.com/rooms''"
  by (simp add: build_simps)

lemma http_NewRequestWithContext_Header:
  "http_NewRequestWithContext env ctx m u buf = Inr req \<Longrightarrow> Header req = []"
  by (auto simp: http_NewRequestWithContext_def Let_def split: if_splits sum.splits)

lemma Header_Get_Set:
  "Header_Get (Header_Set req k v) k' = (if k' = k then Some v else Header_Get req k')"
  by (simp add: Header_Get_def Header_Set_def update_conv')

text \<open>
  C8. Every request built by either builder, with or without a payload, carries
  \<^verbatim>\<open>Accept: application/json\<close>, the configured \<^verbatim>\<open>User-Agent\<close> and the token in
  \<^verbatim>\<open>X-ChatWorkToken\<close>; \<^verbatim>\<open>Content-Type\<close> is set exactly when a payload is present, to
  \<^verbatim>\<open>application/json\<close> in JSON mode and to \<^verbatim>\<open>application/x-www-form-urlencoded\<close> in form mode.
\<close>

theorem builders_set_headers:
  "(NewRequestWithContext env c ctx m p body = Inr req \<longrightarrow>
      Header_Get req ''Accept'' = Some ''application/json'' \<and>
      Header_Get req ''User-Agent'' = Some (UserAgent c) \<and>
      Header_Get req ''X-ChatWorkToken'' = Some (token c) \<and>
      Header_Get req ''Content-Type'' =
        (if body \<noteq> None then Some ''application/json'' else None)) \<and>
   (NewFormRequestWithContext env c ctx m p body = Inr req' \<longrightarrow>
      Header_Get req' ''Accept'' = Some ''application/json'' \<and>
      Header_Get req' ''User-Agent'' = Some (UserAgent c) \<and>
      Header_Get req' ''X-ChatWorkToken'' = Some (token c) \<and>
      Header_Get req' ''Content-Type'' =
        (if body \<noteq> None then Some ''application/x-www-form-urlencoded'' else None))"
proof (intro conjI impI)
  assume a: "NewRequestWithContext env c ctx m p body = Inr req"
  then obtain r0 u buf where r0: "http_NewRequestWithContext env ctx m u buf = Inr r0"
    and req: "req = Header_Set (Header_Set (Header_Set
                 (if body \<noteq> None then Header_Set r0 ''Content-Type'' ''application/json'' else r0)
                 ''Accept'' ''application/json'') ''User-Agent'' (UserAgent c))
                 ''X-ChatWorkToken'' (token c)"
    by (auto simp: NewRequestWithContext_def Let_def split: sum.splits)
  from r0 have h: "Header_Get r0 k = None" for k
    by (simp add: Header_Get_def http_NewRequestWithContext_Header)
  show "Header_Get req ''Accept'' = Some ''application/json''"
    and "Header_Get req ''User-Agent'' = Some (UserAgent c)"
    and "Header_Get req ''X-ChatWorkToken'' = Some (token c)"
    and "Header_Get req ''Content-Type'' = (if body \<noteq> None then Some ''application/json'' else None)"
    by (simp_all add: req Header_Get_Set h)
next
  assume a: "NewFormRequestWithContext env c ctx m p body = Inr req'"
  then obtain r0 u buf where r0: "http_NewRequestWithContext env ctx m u buf = Inr r0"
    and req: "req' = Header_Set (Header_Set (Header_Set
                 (if body \<noteq> None
                  then Header_Set r0 ''Content-Type'' ''application/x-www-form-urlencoded'' else r0)
                 ''Accept'' ''application/json'') ''User-Agent'' (UserAgent c))
                 ''X-ChatWorkToken'' (token c)"
    by (auto simp: NewFormRequestWithContext_def Let_def split: sum.splits)
  from r0 have h: "Header_Get r0 k = None" for k
    by (simp add: Header_Get_def http_NewRequestWithContext_Header)
  show "Header_Get req' ''Accept'' = Some ''application/json''"
    and "Header_Get req' ''User-Agent'' = Some (UserAgent c)"
    and "Header_Get req' ''X-ChatWorkToken'' = Some (token c)"
    and "Header_Get req' ''Content-Type'' =
           (if body \<noteq> None then Some ''application/x-www-form-urlencoded'' else None)"
    by (simp_all add: req Header_Get_Set h)
qed

text \<open>C8 at requests with a payload in both modes, and at requests without one.\<close>

theorem builders_set_headers_witness:
  "(let c = New offline ''token'' [];
        hello = Some (Some \<lparr>Body = ''hello'', SelfUnread = False\<rparr>);
        j = projr (NewRequestWithContext example_env c Background ''POST'' ''rooms'' hello);
        f = projr (NewFormRequestWithContext example_env c Background ''POST'' ''rooms'' hello);
        g = projr (NewRequestWithContext example_env c Background ''GET'' ''rooms'' None)
    in Header_Get j ''Content-Type'' = Some ''application/json'' \<and>
       Header_Get j ''X-ChatWorkToken'' = Some ''token'' \<and>
       Header_Get f ''Content-Type'' = Some ''application/x-www-form-urlencoded'' \<and>
       Header_Get f ''User-Agent'' = Some ''chatwork-go'' \<and>
       Header_Get g ''Content-Type'' = None \<and>
       Header_Get g ''Accept'' = Some ''application/json'')"
proof -
  let ?c = "New offline ''token'' []"
  let ?hello = "Some (Some \<lparr>Body = ''hello'', SelfUnread = False\<rparr>)"
  let ?j = "projr (NewRequestWithContext example_env ?c Background ''POST'' ''rooms'' ?hello)"
  let ?f = "projr (NewFormRequestWithContext example_env ?c Background ''POST'' ''rooms'' ?hello)"
  let ?g = "projr (NewRequestWithContext example_env ?c Background ''GET'' ''rooms'' None)"
  let ?h = "projr (NewFormRequestWithContext example_env ?c Background ''GET'' ''rooms'' None)"
  have j: "NewRequestWithContext example_env ?c Background ''POST'' ''rooms'' ?hello = Inr ?j"
    and f: "NewFormRequestWithContext example_env ?c Background ''POST'' ''rooms'' ?hello = Inr ?f"
    and g: "NewRequestWithContext example_env ?c Background ''GET'' ''rooms'' None = Inr ?g"
    and h: "NewFormRequestWithContext example_env ?c Background ''GET'' ''rooms'' None = Inr ?h"
    by (simp_all add: build_simps)
  have u: "UserAgent ?c = ''chatwork-go''" and t: "token ?c = ''token''"
    by (simp_all add: New_def userAgent_def)
  from builders_set_headers [of example_env ?c Background "''POST''" "''rooms''" ?hello ?j ?f]
       builders_set_headers [of example_env ?c Background "''GET''" "''rooms''" None ?g ?h]
       j f g h u t
  show ?thesis
    by (simp only: Let_def) simp
qed

subsection \<open>Message endpoints\<close>

text \<open>The pipeline on a message: the decoder on the answer of the service.\<close>

lemma example_scan:
  \<open>scan_buffer example_env [] = Incomplete\<close>
  \<open>scan_buffer example_env ''{"message_id":"1234"}'' = Complete 21\<close>
  by (simp_all add: scan_buffer_def example_env_def)

lemma example_decode:
  \<open>processResponseBody example_env (ValueDest \<lparr>MessageID = []\<rparr>)
      (fresh_body [''{"message_id":"1234"}''] EOF) =
    (None, ValueDest \<lparr>MessageID = ''1234''\<rparr>,
     \<lparr>pending = [], final = EOF, reads = 1, at_end = False, closed = False\<rparr>)\<close>
proof -
  have \<open>readValue example_env [] (fresh_body [''{"message_id":"1234"}''] EOF) =
        (Inr ''{"message_id":"1234"}'',
         \<lparr>pending = [], final = EOF, reads = 1, at_end = False, closed = False\<rparr>)\<close>
  proof -
    have c: \<open>readValue example_env ''{"message_id":"1234"}'' b = (Inr ''{"message_id":"1234"}'', b)\<close>
      for b
      using readValue_Complete [OF example_scan(2), of b] by simp
    have \<open>readValue example_env [] (fresh_body [''{"message_id":"1234"}''] EOF) =
          readValue example_env ([] @ ''{"message_id":"1234"}'')
            ((fresh_body [''{"message_id":"1234"}''] EOF)
               \<lparr>pending := [], reads := Suc (reads (fresh_body [''{"message_id":"1234"}''] EOF))\<rparr>)\<close>
      by (rule readValue_more [OF example_scan(1)]) (simp add: fresh_body_def)
    then show ?thesis
      by (simp only: append_Nil c) (simp add: fresh_body_def)
  qed
  then show ?thesis
    by (simp add: processResponseBody_def Decoder_Decode_def)
       (simp add: example_env_def)
qed

lemma example_form_request:
  "NewFormRequest example_env (New t ''token'' []) ''POST'' ''rooms/123456/messages''
      (Some (Some \<lparr>Body = ''Hello'', SelfUnread = False\<rparr>)) =
   Inr \<lparr>Method = ''POST'', URL = ''https://api.chatwork.com/rooms/123456/messages'',
         Header = [(''Content-Type'', ''application/x-www-form-urlencoded''),
                   (''Accept'', ''application/json''), (''User-Agent'', ''chatwork-go''),
                   (''X-ChatWorkToken'', ''token'')],
         ReqBody = Some ''body=Hello'', Ctx = Background\<rparr>"
  by (simp add: NewFormRequest_def build_simps)

text \<open>\<^verbatim>\<open>SendMessage\<close> against a service that answers 200 with the identifier of the message.\<close>

lemma SendMessage_example:
  \<open>SendMessage example_env
      (New (answering 200 (fresh_body [''{"message_id":"1234"}''] EOF)) ''token'' [])
      Background 123456 ''Hello'' =
   (Some \<lparr>MessageID = ''1234''\<rparr>,
    Some (newResponse \<lparr>StatusCode = 200,
       Request = \<lparr>Method = ''POST'', URL = ''https://api.chatwork.com/rooms/123456/messages'',
         Header = [(''Content-Type'', ''application/x-www-form-urlencoded''),
                   (''Accept'', ''application/json''), (''User-Agent'', ''chatwork-go''),
                   (''X-ChatWorkToken'', ''token'')],
         ReqBody = Some ''body=Hello'', Ctx = Background\<rparr>\<rparr>),
    None)\<close>
proof -
  have u: "''rooms/'' @ itoa 123456 @ ''/messages'' = ''rooms/123456/messages''"
    by (simp add: itoa_def itoa_nat.simps digit_def)
  show ?thesis
    unfolding SendMessage_def Create_def Let_def u example_form_request
    by (simp add: Do_def New_def answering_def CheckResponse_def example_decode)
qed

text \<open>
  C10. For every client, context, room and text, \<^verbatim>\<open>SendMessage\<close> returns what \<^verbatim>\<open>Create\<close>
  returns for parameters that hold that text as body and a false self-unread flag:
  the same created-message value, envelope and error.
\<close>

theorem SendMessage_is_Create:
  "SendMessage env c ctx roomID body =
     Create env c ctx roomID (Some \<lparr>Body = body, SelfUnread = False\<rparr>)"
  by (simp add: SendMessage_def)

text \<open>C10 at the service of the example: \<^verbatim>\<open>Create\<close> returns the created message.\<close>

theorem SendMessage_is_Create_witness:
  \<open>Create example_env
      (New (answering 200 (fresh_body [''{"message_id":"1234"}''] EOF)) ''token'' [])
      Background 123456 (Some \<lparr>Body = ''Hello'', SelfUnread = False\<rparr>) =
   (Some \<lparr>MessageID = ''1234''\<rparr>,
    Some (newResponse \<lparr>StatusCode = 200,
       Request = \<lparr>Method = ''POST'', URL = ''https://api.chatwork.com/rooms/123456/messages'',
         Header = [(''Content-Type'', ''application/x-www-form-urlencoded''),
                   (''Accept'', ''application/json''), (''User-Agent'', ''chatwork-go''),
                   (''X-ChatWorkToken'', ''token'')],
         ReqBody = Some ''body=Hello'', Ctx = Background\<rparr>\<rparr>),
    None)\<close>
  using SendMessage_is_Create
          [of example_env
              \<open>New (answering 200 (fresh_body [''{"message_id":"1234"}''] EOF)) ''token'' []\<close>
              Background 123456 "''Hello''"]
        SendMessage_example
  by (simp only:)

end
